theory Spec2Isabelle
  imports Main "HOL-Library.AList"
begin

section \<open>Values, exceptions and printed lines\<close>

text \<open>
  The program is dynamically typed. The values that flow through it are text (an answer of
  the language model, a spreadsheet cell), whole numbers (a numeric cell) and Python's
  \<^verbatim>\<open>None\<close> (an empty cell, the corrector giving up). Cell values are restricted to these
  three shapes.
\<close>

datatype val = VNone | VStr string | VInt int

text \<open>Python truthiness: \<^verbatim>\<open>None\<close>, the empty string and zero are false.\<close>

fun truthy :: "val \<Rightarrow> bool" where
  "truthy VNone = False"
| "truthy (VStr s) = (s \<noteq> [])"
| "truthy (VInt i) = (i \<noteq> 0)"

definition py_not :: "val \<Rightarrow> bool" where
  "py_not v = (\<not> truthy v)"

text \<open>
  Exceptions. \<open>OtherException\<close> stands for any further subclass of \<^verbatim>\<open>Exception\<close>
  (a damaged workbook, a failed model call); \<open>KeyboardInterrupt\<close> is the one
  representative of the classes that \<^verbatim>\<open>except Exception\<close> does not catch.
\<close>

datatype exn =
    TypeError | KeyError | IndexError | FileNotFoundError
  | OtherException string | KeyboardInterrupt

fun is_Exception :: "exn \<Rightarrow> bool" where
  "is_Exception KeyboardInterrupt = False"
| "is_Exception _ = True"

text \<open>The lines the program prints, with the values interpolated into them.\<close>

datatype msg =
    FileNotFoundMsg string
  | LoadFailedMsg exn
  | CouldNotCorrectMsg val int
  | WrongTypeMsg

section \<open>The taxonomy: a nested dictionary in insertion order\<close>

text \<open>
  A Python dictionary keeps its keys in insertion order; it is an association list here,
  updated in place when the key exists and extended at the end otherwise
  (\<open>AList.update\<close>). Reading a missing key raises \<^verbatim>\<open>KeyError\<close>.
\<close>

type_synonym taxonomy = "(val \<times> (val \<times> val list) list) list"

definition dict_get :: "('k \<times> 'v) list \<Rightarrow> 'k \<Rightarrow> exn + 'v" where
  "dict_get d k = (case map_of d k of None \<Rightarrow> Inl KeyError | Some v \<Rightarrow> Inr v)"

definition dict_keys :: "('k \<times> 'v) list \<Rightarrow> 'k list" where
  "dict_keys d = map fst d"

definition get_categories :: "taxonomy \<Rightarrow> val list" where
  "get_categories material_data = dict_keys material_data"

definition get_subcategories :: "taxonomy \<Rightarrow> val \<Rightarrow> exn + val list" where
  "get_subcategories material_data category =
     (case dict_get material_data category of
        Inl e \<Rightarrow> Inl e
      | Inr subs \<Rightarrow> Inr (dict_keys subs))"

definition get_grades :: "taxonomy \<Rightarrow> val \<Rightarrow> val \<Rightarrow> exn + val list" where
  "get_grades material_data category subcategory =
     (case dict_get material_data category of
        Inl e \<Rightarrow> Inl e
      | Inr subs \<Rightarrow> dict_get subs subcategory)"

section \<open>Loading the taxonomy from the workbook\<close>

text \<open>
  A row of the sheet is the tuple of its cells' values. Indexing a tuple past its end
  raises \<^verbatim>\<open>IndexError\<close>.
\<close>

type_synonym row = "val list"

definition cell_value :: "row \<Rightarrow> nat \<Rightarrow> exn + val" where
  "cell_value r i = (if i < length r then Inr (r ! i) else Inl IndexError)"

text \<open>Lines 42 to 47: the three guarded insertions for one row.\<close>

definition add_entry :: "val \<Rightarrow> val \<Rightarrow> val \<Rightarrow> taxonomy \<Rightarrow> exn + taxonomy" where
  "add_entry category subcategory grade d0 =
     (let d1 = (if category \<notin> set (dict_keys d0) then AList.update category [] d0 else d0)
      in case dict_get d1 category of
           Inl e \<Rightarrow> Inl e
         | Inr subs \<Rightarrow>
             (let d2 = (if subcategory \<notin> set (dict_keys subs)
                        then AList.update category (AList.update subcategory [] subs) d1
                        else d1)
              in case dict_get d2 category of
                   Inl e \<Rightarrow> Inl e
                 | Inr subs2 \<Rightarrow>
                     (case dict_get subs2 subcategory of
                        Inl e \<Rightarrow> Inl e
                      | Inr grades \<Rightarrow>
                          if grade \<notin> set grades
                          then Inr (AList.update category
                                      (AList.update subcategory (grades @ [grade]) subs2) d2)
                          else Inr d2)))"

text \<open>Lines 31 to 47: the loop over the rows, with the dictionary as accumulator.\<close>

fun iter_rows_loop :: "row list \<Rightarrow> taxonomy \<Rightarrow> exn + taxonomy" where
  "iter_rows_loop [] d = Inr d"
| "iter_rows_loop (r # rest) d =
     (case cell_value r 0 of
        Inl e \<Rightarrow> Inl e
      | Inr first \<Rightarrow>
          if first = VNone then iter_rows_loop rest d
          else
            (case cell_value r 5 of
               Inl e \<Rightarrow> Inl e
             | Inr category \<Rightarrow>
                 (case cell_value r 6 of
                    Inl e \<Rightarrow> Inl e
                  | Inr subcategory \<Rightarrow>
                      (case cell_value r 0 of
                         Inl e \<Rightarrow> Inl e
                       | Inr grade \<Rightarrow>
                           if py_not category \<or> py_not subcategory \<or> py_not grade
                           then iter_rows_loop rest d
                           else
                             (case add_entry category subcategory grade d of
                                Inl e \<Rightarrow> Inl e
                              | Inr d' \<Rightarrow> iter_rows_loop rest d')))))"

text \<open>
  \<open>load_workbook\<close> is the file system and the spreadsheet library: given a path it
  raises or yields the rows of the active sheet, the header row first.
  \<^verbatim>\<open>iter_rows(min_row=2)\<close> starts at the second row. The result is the printed lines and
  what the function returns or raises.
\<close>

definition get_material_data ::
  "(string \<Rightarrow> exn + row list) \<Rightarrow> string \<Rightarrow> msg list \<times> (exn + taxonomy)" where
  "get_material_data load_workbook material_list_file =
     (case load_workbook material_list_file of
        Inl e \<Rightarrow>
          if e = FileNotFoundError then ([FileNotFoundMsg material_list_file], Inr [])
          else if is_Exception e then ([LoadFailedMsg e], Inr [])
          else ([], Inl e)
      | Inr mat_ws \<Rightarrow> ([], iter_rows_loop (drop 1 mat_ws) []))"

subsection \<open>Reading a taxonomy: the notions the loader's properties are stated in\<close>

text \<open>
  The subcategory dictionary of a category and the grade list of a subcategory, empty
  where the key is absent.
\<close>

definition subs_of :: "taxonomy \<Rightarrow> val \<Rightarrow> (val \<times> val list) list" where
  "subs_of d c = (case map_of d c of None \<Rightarrow> [] | Some subs \<Rightarrow> subs)"

definition grades_of :: "taxonomy \<Rightarrow> val \<Rightarrow> val \<Rightarrow> val list" where
  "grades_of d c s = (case map_of (subs_of d c) s of None \<Rightarrow> [] | Some gs \<Rightarrow> gs)"

text \<open>Lines 46 and 47 on their own: a grade is appended unless it is there already.\<close>

definition with_grade :: "val \<Rightarrow> val list \<Rightarrow> val list" where
  "with_grade g gs = (if g \<in> set gs then gs else gs @ [g])"

text \<open>The taxonomy after a row's triple (columns 5, 6 and 0) has been entered.\<close>

definition insert_row :: "row \<Rightarrow> taxonomy \<Rightarrow> taxonomy" where
  "insert_row r d =
     AList.update (r ! 5)
       (AList.update (r ! 6) (with_grade (r ! 0) (grades_of d (r ! 5) (r ! 6))) (subs_of d (r ! 5))) d"

text \<open>The grade \<open>g\<close> is listed under subcategory \<open>s\<close> of category \<open>c\<close>.\<close>

definition has_grade :: "taxonomy \<Rightarrow> val \<Rightarrow> val \<Rightarrow> val \<Rightarrow> bool" where
  "has_grade d c s g = (case get_grades d c s of Inl e \<Rightarrow> False | Inr gs \<Rightarrow> g \<in> set gs)"

text \<open>
  A row can be read when it has a first cell and, unless that cell is empty, at least
  seven cells. A row is complete when its grade, category and subcategory are all there
  and true.
\<close>

definition readable :: "row \<Rightarrow> bool" where
  "readable r = (0 < length r \<and> (r ! 0 = VNone \<or> 7 \<le> length r))"

definition complete_row :: "row \<Rightarrow> bool" where
  "complete_row r = (7 \<le> length r \<and> truthy (r ! 0) \<and> truthy (r ! 5) \<and> truthy (r ! 6))"

text \<open>
  Keys are unique at both levels, no grade is listed twice, no category is without a
  subcategory and no subcategory without a grade.
\<close>

definition well_formed :: "taxonomy \<Rightarrow> bool" where
  "well_formed d =
     (distinct (map fst d) \<and>
      (\<forall>c. distinct (map fst (subs_of d c))) \<and>
      (\<forall>c s. distinct (grades_of d c s)) \<and>
      (\<forall>c. map_of d c \<noteq> None \<longrightarrow> subs_of d c \<noteq> []) \<and>
      (\<forall>c s. map_of (subs_of d c) s \<noteq> None \<longrightarrow> grades_of d c s \<noteq> []))"

section \<open>The language model\<close>

text \<open>
  An argument of a call is a single value or a list of values. A prompt carries what the
  chain is invoked with. The model's answer may depend on the prompt and on how many
  calls were made before; the call itself may raise, reading \<^verbatim>\<open>response.content\<close> may
  raise, or the content is a text.
\<close>

datatype arg = AVal val | ASeq "val list"

datatype prompt =
    ClassifyPrompt arg arg arg
  | CorrectPrompt val "val list"

datatype reply = InvokeRaises exn | ReadRaises exn | Content string

type_synonym llm = "nat \<Rightarrow> prompt \<Rightarrow> reply"

record world =
  calls :: nat
  out :: "msg list"

section \<open>Classification and correction\<close>

text \<open>Lines 172 to 180: one call of the chain; the content is returned as it is.\<close>

definition classify_material ::
  "llm \<Rightarrow> arg \<Rightarrow> arg \<Rightarrow> arg \<Rightarrow> world \<Rightarrow> (exn + val) \<times> world" where
  "classify_material model material_name material_information options w =
     (let w1 = w\<lparr>calls := Suc (calls w)\<rparr>
      in case model (calls w) (ClassifyPrompt options material_name material_information) of
           InvokeRaises e \<Rightarrow> (Inl e, w1)
         | ReadRaises e \<Rightarrow> (Inl e, w1)
         | Content s \<Rightarrow> (Inr (VStr s), w1))"

text \<open>
  Binding the arguments of a call to the parameters of a function without defaults:
  positional arguments fill the parameters in order; a keyword that is no parameter, a
  parameter given twice, or a parameter left without a value raises \<^verbatim>\<open>TypeError\<close>.
\<close>

definition bind_args ::
  "string list \<Rightarrow> arg list \<Rightarrow> (string \<times> arg) list \<Rightarrow> exn + (string \<times> arg) list" where
  "bind_args params pos kws =
     (if length params < length pos then Inl TypeError
      else if list_ex (\<lambda>k. k \<notin> set params) (map fst kws) then Inl TypeError
      else if list_ex (\<lambda>k. k \<in> set (take (length pos) params)) (map fst kws) then Inl TypeError
      else if list_ex (\<lambda>p. p \<notin> set (take (length pos) params @ map fst kws)) params
        then Inl TypeError
      else Inr (zip params pos @ kws))"

definition classify_material_params :: "string list" where
  "classify_material_params = [''material_name'', ''material_information'', ''options'']"

definition call_classify_material ::
  "llm \<Rightarrow> arg list \<Rightarrow> (string \<times> arg) list \<Rightarrow> world \<Rightarrow> (exn + val) \<times> world" where
  "call_classify_material model pos kws w =
     (case bind_args classify_material_params pos kws of
        Inl e \<Rightarrow> (Inl e, w)
      | Inr env \<Rightarrow>
          (case (map_of env ''material_name'', map_of env ''material_information'',
                 map_of env ''options'') of
             (Some n, Some i, Some os) \<Rightarrow> classify_material model n i os w
           | _ \<Rightarrow> (Inl TypeError, w)))"

text \<open>
  The \<^verbatim>\<open>except TypeError\<close> clause of lines 228 to 230, applied to what the body of the
  \<^verbatim>\<open>try\<close> did: a \<^verbatim>\<open>TypeError\<close> becomes a printed line and \<^verbatim>\<open>None\<close>, anything else
  passes.
\<close>

definition except_TypeError :: "(exn + val) \<times> world \<Rightarrow> (exn + val) \<times> world" where
  "except_TypeError rw =
     (case rw of
        (Inl e, w) \<Rightarrow>
          if e = TypeError then (Inr VNone, w\<lparr>out := out w @ [WrongTypeMsg]\<rparr>) else (Inl e, w)
      | (Inr v, w) \<Rightarrow> (Inr v, w))"

text \<open>
  Line 227 is an expression statement: the value of the recursive call is dropped and
  control reaches the end of the function, which returns \<^verbatim>\<open>None\<close>.
\<close>

definition value_dropped :: "(exn + val) \<times> world \<Rightarrow> (exn + val) \<times> world" where
  "value_dropped rw =
     (case rw of
        (Inl e, w) \<Rightarrow> (Inl e, w)
      | (Inr v, w) \<Rightarrow> (Inr VNone, w))"

text \<open>
  Lines 183 to 230. The recursive call passes \<open>new_answer\<close>, \<open>options\<close> and
  \<open>counter\<close> only, so \<open>max_attempts\<close> takes its default 3 there. The chain is invoked
  before the \<^verbatim>\<open>try\<close>; reading the content and the recursive call are inside it.
\<close>

function correct_answer_from_list ::
  "llm \<Rightarrow> val \<Rightarrow> val list \<Rightarrow> int \<Rightarrow> int \<Rightarrow> world \<Rightarrow> (exn + val) \<times> world" where
  "correct_answer_from_list model answer options counter max_attempts w =
     (if max_attempts \<le> counter
      then (Inr VNone, w\<lparr>out := out w @ [CouldNotCorrectMsg answer counter]\<rparr>)
      else
        (case model (calls w) (CorrectPrompt answer options) of
           InvokeRaises e \<Rightarrow> (Inl e, w\<lparr>calls := Suc (calls w)\<rparr>)
         | ReadRaises e \<Rightarrow> except_TypeError (Inl e, w\<lparr>calls := Suc (calls w)\<rparr>)
         | Content new_answer \<Rightarrow>
             if VStr new_answer \<in> set options
             then (Inr (VStr new_answer), w\<lparr>calls := Suc (calls w)\<rparr>)
             else except_TypeError (value_dropped
                    (correct_answer_from_list model (VStr new_answer) options (counter + 1) 3
                       (w\<lparr>calls := Suc (calls w)\<rparr>)))))"
  by pat_completeness auto
termination
  by (relation "measure (\<lambda>(model, answer, options, counter, max_attempts, w).
                   nat (max max_attempts 3 + 1 - counter))") auto

declare correct_answer_from_list.simps [simp del]

section \<open>The workflow\<close>

text \<open>
  Lines 255 to 260 (and 265 to 270, 277 to 282): the answer is checked against the
  options, corrected when it is not one of them, and replaced by \<^verbatim>\<open>"Other"\<close> when it is
  false.
\<close>

definition check_answer :: "llm \<Rightarrow> val \<Rightarrow> val list \<Rightarrow> world \<Rightarrow> (exn + val) \<times> world" where
  "check_answer model mat options w =
     (case (if mat \<notin> set options then correct_answer_from_list model mat options 0 3 w
            else (Inr mat, w)) of
        (Inl e, w') \<Rightarrow> (Inl e, w')
      | (Inr mat', w') \<Rightarrow> (Inr (if py_not mat' then VStr ''Other'' else mat'), w'))"

text \<open>
  Stages 2 and 3 (lines 264 to 270 and 276 to 282): \<open>classify_material\<close> is called with
  three positional arguments, then the answer is checked.
\<close>

definition resolve_stage ::
  "llm \<Rightarrow> val \<Rightarrow> val \<Rightarrow> val list \<Rightarrow> world \<Rightarrow> (exn + val) \<times> world" where
  "resolve_stage model material_name material_info options w =
     (case call_classify_material model
             [AVal material_name, AVal material_info, ASeq options] [] w of
        (Inl e, w1) \<Rightarrow> (Inl e, w1)
      | (Inr mat, w1) \<Rightarrow> check_answer model mat options w1)"

record classification =
  category :: val
  subcategory :: val
  grade :: val

definition get_material_information :: "(val \<Rightarrow> exn + val) \<Rightarrow> val \<Rightarrow> exn + val" where
  "get_material_information describe material_name = describe material_name"

text \<open>
  Lines 233 to 288. Stage 1 calls \<open>classify_material\<close> with the keywords
  \<open>material_name\<close>, \<open>material_information\<close> and \<open>categories\<close>; stages 2 and 3 call
  it positionally.
\<close>

definition start_workflow ::
  "(val \<Rightarrow> exn + val) \<Rightarrow> llm \<Rightarrow> val \<Rightarrow> taxonomy \<Rightarrow> world
     \<Rightarrow> (exn + classification) \<times> world" where
  "start_workflow describe model material_name material_db w =
     (case get_material_information describe material_name of
        Inl e \<Rightarrow> (Inl e, w)
      | Inr material_info \<Rightarrow>
     (let categories = get_categories material_db
      in case call_classify_material model []
                [(''material_name'', AVal material_name),
                 (''material_information'', AVal material_info),
                 (''categories'', ASeq categories)] w of
        (Inl e, w1) \<Rightarrow> (Inl e, w1)
      | (Inr answer, w1) \<Rightarrow>
     (case check_answer model answer categories w1 of
        (Inl e, w2) \<Rightarrow> (Inl e, w2)
      | (Inr mat_category, w2) \<Rightarrow>
     (case get_subcategories material_db mat_category of
        Inl e \<Rightarrow> (Inl e, w2)
      | Inr subcategories \<Rightarrow>
     (case resolve_stage model material_name material_info subcategories w2 of
        (Inl e, w3) \<Rightarrow> (Inl e, w3)
      | (Inr mat_subcategory, w3) \<Rightarrow>
     (case get_grades material_db mat_category mat_subcategory of
        Inl e \<Rightarrow> (Inl e, w3)
      | Inr grades \<Rightarrow>
     (case resolve_stage model material_name material_info grades w3 of
        (Inl e, w4) \<Rightarrow> (Inl e, w4)
      | (Inr mat_grade, w4) \<Rightarrow>
          (Inr \<lparr>category = mat_category, subcategory = mat_subcategory,
                grade = mat_grade\<rparr>, w4))))))))"

section \<open>Test doubles\<close>

text \<open>A model that answers the first of the options it is given.\<close>

fun first_option :: "val list \<Rightarrow> reply" where
  "first_option (VStr s # _) = Content s"
| "first_option _ = Content []"

fun exact_oracle :: llm where
  "exact_oracle n (ClassifyPrompt (ASeq options) _ _) = first_option options"
| "exact_oracle n (ClassifyPrompt (AVal _) _ _) = Content []"
| "exact_oracle n (CorrectPrompt _ options) = first_option options"

text \<open>A model whose every answer is the same text, whatever it is asked.\<close>

definition constant_oracle :: "string \<Rightarrow> llm" where
  "constant_oracle s n p = Content s"

text \<open>A model that plays a script: the n-th call gets the n-th reply.\<close>

definition scripted :: "reply list \<Rightarrow> llm" where
  "scripted rs n p = (if n < length rs then rs ! n else InvokeRaises (OtherException ''script''))"

text \<open>
  A model that normalises step by step: asked to correct \<open>stel\<close> it says \<open>steel\<close>,
  asked to correct \<open>steel\<close> it says \<open>Steel\<close>.
\<close>

fun stepwise_oracle :: llm where
  "stepwise_oracle n (CorrectPrompt answer options) =
     (if answer = VStr ''stel'' then Content ''steel''
      else if answer = VStr ''steel'' then Content ''Steel''
      else Content ''?'')"
| "stepwise_oracle n (ClassifyPrompt _ _ _) = Content ''?''"

text \<open>
  A sheet with a header, a complete row, a row without a category, a row of one empty
  cell, a second row with the first one's triple, and a row for another subcategory.
\<close>

definition sample_table :: "row list" where
  "sample_table =
     [[VStr ''Grade'', VNone, VNone, VNone, VNone, VStr ''Category'', VStr ''Subcategory''],
      [VStr ''Steel-A36'', VNone, VNone, VNone, VNone, VStr ''Metal'', VStr ''Ferrous''],
      [VStr ''Unsorted'', VNone, VNone, VNone, VNone, VNone, VStr ''Ferrous''],
      [VNone],
      [VStr ''Steel-A36'', VInt 7, VNone, VNone, VNone, VStr ''Metal'', VStr ''Ferrous''],
      [VStr ''6061'', VNone, VNone, VNone, VNone, VStr ''Metal'', VStr ''Aluminium'']]"

definition sample_taxonomy :: taxonomy where
  "sample_taxonomy =
     [(VStr ''Metal'', [(VStr ''Ferrous'', [VStr ''Steel-A36'']),
                        (VStr ''Aluminium'', [VStr ''6061''])])]"

text \<open>A sheet with a single column: a header and one grade.\<close>

definition narrow_table :: "row list" where
  "narrow_table = [[VStr ''Grade''], [VStr ''Steel-A36'']]"

definition w0 :: world where
  "w0 = \<lparr>calls = 0, out = []\<rparr>"

definition steel_db :: taxonomy where
  "steel_db = [(VStr ''Metal'', [(VStr ''Ferrous'', [VStr ''Steel-A36''])])]"

definition describe_steel :: "val \<Rightarrow> exn + val" where
  "describe_steel material_name = Inr (VStr ''an alloy of iron and carbon'')"

section \<open>The corrector\<close>

lemma scripted_0: "scripted (x # xs) 0 p = x"
  by (simp add: scripted_def)

lemma scripted_1: "scripted (x # y # xs) (Suc 0) p = y"
  by (simp add: scripted_def)

lemma corrector_stop:
  "max_attempts \<le> counter \<Longrightarrow>
     correct_answer_from_list model answer options counter max_attempts w =
       (Inr VNone, w\<lparr>out := out w @ [CouldNotCorrectMsg answer counter]\<rparr>)"
  by (subst correct_answer_from_list.simps) simp

lemma corrector_invoke_raises:
  "\<not> max_attempts \<le> counter \<Longrightarrow> model (calls w) (CorrectPrompt answer options) = InvokeRaises e \<Longrightarrow>
     correct_answer_from_list model answer options counter max_attempts w =
       (Inl e, w\<lparr>calls := Suc (calls w)\<rparr>)"
  by (subst correct_answer_from_list.simps) simp

lemma corrector_read_raises:
  "\<not> max_attempts \<le> counter \<Longrightarrow> model (calls w) (CorrectPrompt answer options) = ReadRaises e \<Longrightarrow>
     correct_answer_from_list model answer options counter max_attempts w =
       except_TypeError (Inl e, w\<lparr>calls := Suc (calls w)\<rparr>)"
  by (subst correct_answer_from_list.simps) simp

lemma corrector_match:
  "\<not> max_attempts \<le> counter \<Longrightarrow> model (calls w) (CorrectPrompt answer options) = Content s \<Longrightarrow>
   VStr s \<in> set options \<Longrightarrow>
     correct_answer_from_list model answer options counter max_attempts w =
       (Inr (VStr s), w\<lparr>calls := Suc (calls w)\<rparr>)"
  by (subst correct_answer_from_list.simps) simp

lemma corrector_retry:
  "\<not> max_attempts \<le> counter \<Longrightarrow> model (calls w) (CorrectPrompt answer options) = Content s \<Longrightarrow>
   VStr s \<notin> set options \<Longrightarrow>
     correct_answer_from_list model answer options counter max_attempts w =
       except_TypeError (value_dropped
         (correct_answer_from_list model (VStr s) options (counter + 1) 3
            (w\<lparr>calls := Suc (calls w)\<rparr>)))"
  by (subst correct_answer_from_list.simps) simp

lemma dropped_is_no_text: "fst (except_TypeError (value_dropped rw)) \<noteq> Inr (VStr v)"
  by (cases rw) (auto simp: except_TypeError_def value_dropped_def split: sum.splits)

lemma calls_dropped: "calls (snd (except_TypeError (value_dropped rw))) = calls (snd rw)"
  by (cases rw) (auto simp: except_TypeError_def value_dropped_def split: sum.splits)

lemma dropped_None: "fst rw = Inr v \<Longrightarrow> fst (except_TypeError (value_dropped rw)) = Inr VNone"
  by (cases rw) (auto simp: except_TypeError_def value_dropped_def split: sum.splits)

text \<open>
  C10. When the counter has reached \<open>max_attempts\<close> on entry, the corrector returns
  \<^verbatim>\<open>None\<close> at once: it raises nothing, the model is not called (the number of calls is
  the one on entry) and one line is printed.
\<close>

theorem corrector_exhausted:
  "max_attempts \<le> counter \<Longrightarrow>
     correct_answer_from_list model answer options counter max_attempts w =
       (Inr VNone, w\<lparr>out := out w @ [CouldNotCorrectMsg answer counter]\<rparr>) \<and>
     calls (snd (correct_answer_from_list model answer options counter max_attempts w)) = calls w"
  by (subst (1 2) correct_answer_from_list.simps) simp

theorem corrector_exhausted_witness:
  "(0::int) \<le> 0 \<and>
   correct_answer_from_list (constant_oracle ''garbage'') (VStr ''stel'') [VStr ''Steel''] 0 0 w0 =
     (Inr VNone, w0\<lparr>out := out w0 @ [CouldNotCorrectMsg (VStr ''stel'') 0]\<rparr>) \<and>
   calls (snd (correct_answer_from_list (constant_oracle ''garbage'') (VStr ''stel'')
                 [VStr ''Steel''] 0 0 w0)) = calls w0"
proof -
  have h: "(0::int) \<le> 0" by simp
  from corrector_exhausted [OF h] show ?thesis by simp
qed

text \<open>
  The corrector returns an option only when the answer to its first call is one: a match
  found by a recursive call is returned by that call and dropped by its caller.
\<close>

lemma corrector_first_round:
  assumes "counter < max_attempts"
  shows "fst (correct_answer_from_list model answer options counter max_attempts w) = Inr (VStr v)
         \<longleftrightarrow> (model (calls w) (CorrectPrompt answer options) = Content v \<and> VStr v \<in> set options)"
proof (cases "model (calls w) (CorrectPrompt answer options)")
  case (InvokeRaises e)
  with assms show ?thesis by (simp add: corrector_invoke_raises)
next
  case (ReadRaises e)
  with assms show ?thesis by (simp add: corrector_read_raises except_TypeError_def)
next
  case (Content s)
  show ?thesis
  proof (cases "VStr s \<in> set options")
    case True
    with assms Content show ?thesis by (auto simp: corrector_match)
  next
    case False
    with assms Content show ?thesis by (auto simp: corrector_retry dropped_is_no_text)
  qed
qed

text \<open>
  C3. The retry submits the model's latest answer: \<open>stepwise_oracle\<close> says \<open>Steel\<close>
  only when it is asked to correct \<open>steel\<close>, its own first answer. That second answer is
  an exact member of the options and two calls were made out of three, yet the caller
  gets \<^verbatim>\<open>None\<close>.
\<close>

theorem match_on_retry_is_lost:
  "correct_answer_from_list stepwise_oracle (VStr ''stel'') [VStr ''Steel''] 0 3 w0
     = (Inr VNone, \<lparr>calls = 2, out = []\<rparr>)"
  by (simp add: correct_answer_from_list.simps w0_def except_TypeError_def value_dropped_def)

text \<open>
  C4. With \<open>max_attempts = 1\<close> and a model that never answers an option, one top-level
  invocation calls the model three times: the recursive call runs under the default
  budget of 3. It returns \<^verbatim>\<open>None\<close>.
\<close>

theorem budget_of_one_makes_three_calls:
  "correct_answer_from_list (constant_oracle ''garbage'') (VStr ''stel'') [VStr ''Steel''] 0 1 w0
     = (Inr VNone, \<lparr>calls = 3, out = [CouldNotCorrectMsg (VStr ''garbage'') 3]\<rparr>)"
  by (simp add: correct_answer_from_list.simps w0_def except_TypeError_def value_dropped_def constant_oracle_def)

lemma script_run:
  "correct_answer_from_list (scripted [Content ''steel'', ReadRaises TypeError])
       (VStr ''stel'') [VStr ''Steel''] 0 3 w0 = (Inr VNone, \<lparr>calls = 2, out = [WrongTypeMsg]\<rparr>)"
  by (simp add: correct_answer_from_list.simps scripted_0 scripted_1 w0_def except_TypeError_def value_dropped_def)

text \<open>
  C6, as amended. Suppose reading the content of the answer to call number \<open>k\<close> raises
  \<^verbatim>\<open>TypeError\<close>, the one class the handler of line 228 names. Then the corrector
  never calls the model after call \<open>k\<close>, and when it did make call \<open>k\<close> it returns
  \<^verbatim>\<open>None\<close>: the error does not reach its caller.
\<close>

theorem type_error_is_caught:
  assumes "\<forall>p. model k p = ReadRaises TypeError"
      and "calls w \<le> k"
      and "correct_answer_from_list model answer options counter max_attempts w = (r, w')"
  shows "calls w' \<le> Suc k \<and> (calls w' = Suc k \<longrightarrow> r = Inr VNone)"
  using assms
proof (induction model answer options counter max_attempts w arbitrary: r w'
        rule: correct_answer_from_list.induct)
  case (1 model answer options counter max_attempts w)
  show ?case
  proof (cases "max_attempts \<le> counter")
    case True
    with "1.prems" show ?thesis by (simp add: corrector_stop) auto
  next
    case False
    show ?thesis
    proof (cases "model (calls w) (CorrectPrompt answer options)")
      case (InvokeRaises e)
      with False "1.prems" show ?thesis
        by (cases "calls w = k") (auto simp: corrector_invoke_raises)
    next
      case (ReadRaises e)
      with False "1.prems" show ?thesis
        by (cases "calls w = k") (auto simp: corrector_read_raises except_TypeError_def split: if_splits)
    next
      case (Content s)
      with "1.prems"(1,2) have less: "calls w < k" by (cases "calls w = k") auto
      show ?thesis
      proof (cases "VStr s \<in> set options")
        case True
        with False Content "1.prems" less show ?thesis by (auto simp: corrector_match)
      next
        case notin: False
        obtain r1 w1 where rec: "correct_answer_from_list model (VStr s) options (counter + 1) 3
                       (w\<lparr>calls := Suc (calls w)\<rparr>) = (r1, w1)" by (meson surj_pair)
        from less have le: "calls (w\<lparr>calls := Suc (calls w)\<rparr>) \<le> k" by simp
        from "1.IH"[OF False Content notin "1.prems"(1) le rec]
        have ih: "calls w1 \<le> Suc k" "calls w1 = Suc k \<longrightarrow> r1 = Inr VNone" by simp_all
        from "1.prems"(3) False Content notin rec
        have res: "calls w' = calls w1" "r1 = Inr VNone \<longrightarrow> r = Inr VNone"
          by (auto simp: corrector_retry except_TypeError_def value_dropped_def split: sum.splits if_splits)
        from ih res show ?thesis by simp
      qed
    qed
  qed
qed

theorem type_error_is_caught_witness:
  "calls w0 \<le> 1 \<and>
   correct_answer_from_list (scripted [Content ''steel'', ReadRaises TypeError])
       (VStr ''stel'') [VStr ''Steel''] 0 3 w0 = (Inr VNone, \<lparr>calls = 2, out = [WrongTypeMsg]\<rparr>) \<and>
   calls \<lparr>calls = 2, out = [WrongTypeMsg]\<rparr> \<le> Suc 1"
proof -
  have a: "\<forall>p. scripted [Content ''steel'', ReadRaises TypeError] 1 p = ReadRaises TypeError"
    by (simp add: scripted_1)
  have b: "calls w0 \<le> 1" by (simp add: w0_def)
  from type_error_is_caught [OF a b script_run] b script_run show ?thesis by simp
qed

text \<open>
  C6 as it is stated fails for an error of another class: a \<^verbatim>\<open>ValueError\<close> raised
  while the content of the first answer is read is not caught, and the caller of the
  corrector gets the exception instead of \<^verbatim>\<open>None\<close>.
\<close>

theorem value_error_propagates_counterexample:
  "correct_answer_from_list (scripted [ReadRaises (OtherException ''ValueError'')])
       (VStr ''stel'') [VStr ''Steel''] 0 3 w0
     = (Inl (OtherException ''ValueError''), \<lparr>calls = Suc 0, out = []\<rparr>)"
  by (simp add: correct_answer_from_list.simps scripted_0 w0_def except_TypeError_def)

section \<open>The workflow's first stage\<close>

text \<open>
  \<open>classify_material\<close> has no parameter \<open>categories\<close>, so binding the arguments of the
  stage-1 call raises \<^verbatim>\<open>TypeError\<close> before the model is asked anything. The positional
  calls of stages 2 and 3 bind.
\<close>

lemma stage1_call_raises:
  "call_classify_material model []
     [(''material_name'', a), (''material_information'', b), (''categories'', c)] w
   = (Inl TypeError, w)"
  by (simp add: call_classify_material_def bind_args_def classify_material_params_def)

lemma positional_call:
  "call_classify_material model [a, b, c] [] w = classify_material model a b c w"
  by (simp add: call_classify_material_def bind_args_def classify_material_params_def)

lemma start_workflow_raises:
  "describe material_name = Inr material_info \<Longrightarrow>
     start_workflow describe model material_name material_db w = (Inl TypeError, w)"
  by (simp add: start_workflow_def get_material_information_def stage1_call_raises)

text \<open>
  C1. For the taxonomy \<open>{"Metal": {"Ferrous": ["Steel-A36"]}}\<close>, the material
  \<open>steel\<close> and a model that always answers an exact member of the options, the workflow
  raises \<^verbatim>\<open>TypeError\<close> at stage 1 with no model call made; it returns no record.
\<close>

theorem steel_workflow_raises:
  "start_workflow describe_steel exact_oracle (VStr ''steel'') steel_db w0 = (Inl TypeError, w0)"
  by (simp add: start_workflow_def get_material_information_def describe_steel_def
        stage1_call_raises)

text \<open>
  C5. With a model whose every answer is \<open>garbage\<close> and a taxonomy without an
  \<open>Other\<close> category, the workflow raises \<^verbatim>\<open>TypeError\<close> at stage 1: it neither
  yields the all-\<open>Other\<close> record nor reaches the stage-2 lookup.
\<close>

theorem garbage_workflow_raises:
  "start_workflow describe_steel (constant_oracle ''garbage'') (VStr ''steel'') steel_db w0
     = (Inl TypeError, w0)"
  by (simp add: start_workflow_def get_material_information_def describe_steel_def
        stage1_call_raises)

text \<open>
  What stages 2 and 3 do when they are run on their own: the lookup of a category that
  is not in the taxonomy raises \<^verbatim>\<open>KeyError\<close>, and an exact answer is kept.
\<close>

lemma other_lookup_raises: "get_subcategories steel_db (VStr ''Other'') = Inl KeyError"
  by (simp add: get_subcategories_def dict_get_def steel_db_def)

lemma steel_stage2:
  "resolve_stage exact_oracle (VStr ''steel'') info [VStr ''Ferrous''] w
     = (Inr (VStr ''Ferrous''), w\<lparr>calls := Suc (calls w)\<rparr>)"
  by (simp add: resolve_stage_def positional_call classify_material_def check_answer_def py_not_def)

text \<open>What the corrector returns is \<^verbatim>\<open>None\<close> or a text that is one of the options.\<close>

lemma corrector_result:
  "correct_answer_from_list model answer options counter max_attempts w = (Inr v, w') \<Longrightarrow>
     v = VNone \<or> (v \<in> set options \<and> (\<exists>s. v = VStr s))"
proof (cases "max_attempts \<le> counter")
  case True
  assume "correct_answer_from_list model answer options counter max_attempts w = (Inr v, w')"
  with True show ?thesis by (simp add: corrector_stop)
next
  case False
  assume run: "correct_answer_from_list model answer options counter max_attempts w = (Inr v, w')"
  show ?thesis
  proof (cases "model (calls w) (CorrectPrompt answer options)")
    case (InvokeRaises e)
    with False run show ?thesis by (simp add: corrector_invoke_raises)
  next
    case (ReadRaises e)
    with False run show ?thesis
      by (auto simp: corrector_read_raises except_TypeError_def split: if_splits)
  next
    case (Content s)
    show ?thesis
    proof (cases "VStr s \<in> set options")
      case True
      with False Content run show ?thesis by (auto simp: corrector_match)
    next
      case notin: False
      obtain r1 w1 where rec: "correct_answer_from_list model (VStr s) options (counter + 1) 3
                       (w\<lparr>calls := Suc (calls w)\<rparr>) = (r1, w1)" by (meson surj_pair)
      with False Content notin run show ?thesis
        by (auto simp: corrector_retry except_TypeError_def value_dropped_def
                 split: sum.splits if_splits)
    qed
  qed
qed

section \<open>One stage of the workflow\<close>

lemma stage_unfold:
  "classify_material model (AVal material_name) (AVal material_info) (ASeq options) w = (Inr a, w1) \<Longrightarrow>
   resolve_stage model material_name material_info options w = check_answer model a options w1"
  by (simp add: resolve_stage_def positional_call)

text \<open>
  C2, as amended. Take a stage as lines 264 to 270 and 276 to 282 write it, let \<open>a\<close> be
  the model's first answer and \<open>v\<close> the value the stage resolves to. Then \<open>v\<close> is one of
  the options or \<open>Other\<close>. When \<open>Other\<close> is not itself an option and no option is false
  (\<^verbatim>\<open>None\<close>, empty or zero), \<open>v\<close> is one of the options exactly when \<open>a\<close> is one or the
  corrector returns a value other than \<^verbatim>\<open>None\<close>, and \<open>v\<close> is \<open>Other\<close> in every other
  case.
\<close>

theorem resolve_stage_value:
  assumes first: "classify_material model (AVal material_name) (AVal material_info) (ASeq options) w
                    = (Inr a, w1)"
      and stage: "resolve_stage model material_name material_info options w = (Inr v, w')"
  shows "v \<in> set options \<union> {VStr ''Other''} \<and>
         (VStr ''Other'' \<notin> set options \<and> list_all truthy options \<longrightarrow>
            (v \<in> set options \<longleftrightarrow>
               (a \<in> set options \<or>
                (\<exists>c. c \<noteq> VNone \<and>
                     fst (correct_answer_from_list model a options 0 3 w1) = Inr c))) \<and>
            (v \<notin> set options \<longrightarrow> v = VStr ''Other''))"
proof (cases "a \<in> set options")
  case True
  with stage_unfold [OF first] stage have "v = (if py_not a then VStr ''Other'' else a)"
    by (simp add: check_answer_def)
  with True show ?thesis by (auto simp: py_not_def list_all_iff)
next
  case False
  obtain rc wc where run: "correct_answer_from_list model a options 0 3 w1 = (rc, wc)"
    by (meson surj_pair)
  with stage_unfold [OF first] stage False obtain c where
    c: "rc = Inr c" "v = (if py_not c then VStr ''Other'' else c)"
    by (auto simp: check_answer_def split: sum.splits)
  from run c(1) corrector_result have range: "c = VNone \<or> c \<in> set options" by blast
  show ?thesis
  proof (cases "c = VNone")
    case True
    with c False run show ?thesis by (auto simp: py_not_def)
  next
    case notnone: False
    with range have mem: "c \<in> set options" by simp
    with c False run notnone show ?thesis by (auto simp: py_not_def list_all_iff)
  qed
qed

lemma ferrous_first:
  "classify_material (scripted [Content ''ferrous'', Content ''Ferrous''])
      (AVal (VStr ''steel'')) (AVal (VStr ''an alloy'')) (ASeq [VStr ''Ferrous'']) w0
   = (Inr (VStr ''ferrous''), \<lparr>calls = Suc 0, out = []\<rparr>)"
  by (simp add: classify_material_def scripted_0 w0_def)

lemma ferrous_corrected:
  "correct_answer_from_list (scripted [Content ''ferrous'', Content ''Ferrous''])
      (VStr ''ferrous'') [VStr ''Ferrous''] 0 3 \<lparr>calls = Suc 0, out = []\<rparr>
   = (Inr (VStr ''Ferrous''), \<lparr>calls = 2, out = []\<rparr>)"
  by (simp add: correct_answer_from_list.simps scripted_1)

lemma ferrous_stage:
  "resolve_stage (scripted [Content ''ferrous'', Content ''Ferrous''])
      (VStr ''steel'') (VStr ''an alloy'') [VStr ''Ferrous''] w0
   = (Inr (VStr ''Ferrous''), \<lparr>calls = 2, out = []\<rparr>)"
  by (simp add: stage_unfold [OF ferrous_first] check_answer_def ferrous_corrected py_not_def)

theorem resolve_stage_value_witness:
  "resolve_stage (scripted [Content ''ferrous'', Content ''Ferrous''])
      (VStr ''steel'') (VStr ''an alloy'') [VStr ''Ferrous''] w0
     = (Inr (VStr ''Ferrous''), \<lparr>calls = 2, out = []\<rparr>) \<and>
   VStr ''Other'' \<notin> set [VStr ''Ferrous''] \<and> list_all truthy [VStr ''Ferrous''] \<and>
   VStr ''ferrous'' \<notin> set [VStr ''Ferrous''] \<and>
   fst (correct_answer_from_list (scripted [Content ''ferrous'', Content ''Ferrous''])
      (VStr ''ferrous'') [VStr ''Ferrous''] 0 3 \<lparr>calls = Suc 0, out = []\<rparr>) = Inr (VStr ''Ferrous'') \<and>
   VStr ''Ferrous'' \<in> set [VStr ''Ferrous'']"
  using resolve_stage_value [OF ferrous_first ferrous_stage] ferrous_stage ferrous_corrected
  by simp

text \<open>
  C2 as it is stated fails when \<open>Other\<close> is itself an option: the first answer
  \<open>garbage\<close> is no member of the options, the corrector returns \<^verbatim>\<open>None\<close>, and the
  stage resolves to \<open>Other\<close>, which is a member of the options.
\<close>

lemma garbage_first:
  "classify_material (constant_oracle ''garbage'')
      (AVal (VStr ''steel'')) (AVal (VStr ''an alloy'')) (ASeq [VStr ''Metal'', VStr ''Other'']) w0
   = (Inr (VStr ''garbage''), \<lparr>calls = Suc 0, out = []\<rparr>)"
  by (simp add: classify_material_def constant_oracle_def w0_def)

lemma garbage_corrected:
  "correct_answer_from_list (constant_oracle ''garbage'')
      (VStr ''garbage'') [VStr ''Metal'', VStr ''Other''] 0 3 \<lparr>calls = Suc 0, out = []\<rparr>
   = (Inr VNone, \<lparr>calls = 4, out = [CouldNotCorrectMsg (VStr ''garbage'') 3]\<rparr>)"
  by (simp add: correct_answer_from_list.simps constant_oracle_def except_TypeError_def
        value_dropped_def)

theorem other_is_an_option_counterexample:
  "fst (resolve_stage (constant_oracle ''garbage'') (VStr ''steel'') (VStr ''an alloy'')
          [VStr ''Metal'', VStr ''Other''] w0) = Inr (VStr ''Other'') \<and>
   VStr ''Other'' \<in> set [VStr ''Metal'', VStr ''Other''] \<and>
   fst (classify_material (constant_oracle ''garbage'')
          (AVal (VStr ''steel'')) (AVal (VStr ''an alloy''))
          (ASeq [VStr ''Metal'', VStr ''Other'']) w0) = Inr (VStr ''garbage'') \<and>
   VStr ''garbage'' \<notin> set [VStr ''Metal'', VStr ''Other''] \<and>
   fst (correct_answer_from_list (constant_oracle ''garbage'')
          (VStr ''garbage'') [VStr ''Metal'', VStr ''Other''] 0 3 \<lparr>calls = Suc 0, out = []\<rparr>)
     = Inr VNone"
  by (simp add: stage_unfold [OF garbage_first] garbage_first check_answer_def garbage_corrected
        py_not_def)

section \<open>The loader\<close>

lemma in_keys: "k \<in> set (dict_keys d) \<longleftrightarrow> map_of d k \<noteq> None"
  by (simp add: dict_keys_def map_of_eq_None_iff)

lemma add_entry_eq:
  "add_entry c s g d =
     Inr (AList.update c (AList.update s (with_grade g (grades_of d c s)) (subs_of d c)) d)"
proof (cases "map_of d c")
  case None
  then show ?thesis
    by (simp add: add_entry_def in_keys dict_get_def AList.update_conv' subs_of_def grades_of_def
          with_grade_def)
next
  case (Some subs)
  show ?thesis
  proof (cases "map_of subs s")
    case None
    with Some show ?thesis
      by (simp add: add_entry_def in_keys dict_get_def AList.update_conv' subs_of_def grades_of_def
          with_grade_def)
  next
    case inner: (Some gs)
    show ?thesis
    proof (cases "g \<in> set gs")
      case True
      with Some inner show ?thesis
        by (simp add: add_entry_def in_keys dict_get_def subs_of_def grades_of_def
              with_grade_def AList.update_triv)
    next
      case False
      with Some inner show ?thesis
        by (simp add: add_entry_def in_keys dict_get_def AList.update_conv' subs_of_def grades_of_def
              with_grade_def)
    qed
  qed
qed

lemma subs_of_update: "subs_of (AList.update c x d) c' = (if c' = c then x else subs_of d c')"
  by (simp add: subs_of_def AList.update_conv')

lemma map_of_insert_row:
  "c \<noteq> r ! 5 \<Longrightarrow> map_of (insert_row r d) c = map_of d c"
  by (simp add: insert_row_def AList.update_conv')

lemma subs_of_insert_row:
  "subs_of (insert_row r d) c =
     (if c = r ! 5
      then AList.update (r ! 6) (with_grade (r ! 0) (grades_of d (r ! 5) (r ! 6))) (subs_of d (r ! 5))
      else subs_of d c)"
  by (simp add: insert_row_def subs_of_update)

lemma grades_of_insert_row:
  "grades_of (insert_row r d) c s =
     (if c = r ! 5 \<and> s = r ! 6 then with_grade (r ! 0) (grades_of d c s) else grades_of d c s)"
  by (simp add: grades_of_def subs_of_insert_row AList.update_conv')

lemma set_with_grade: "set (with_grade g gs) = insert g (set gs)"
  by (auto simp: with_grade_def)

lemma distinct_with_grade: "distinct gs \<Longrightarrow> distinct (with_grade g gs)"
  by (simp add: with_grade_def)

lemma with_grade_nonempty: "with_grade g gs \<noteq> []"
  by (auto simp: with_grade_def)

lemma empty_subs_no_key: "map_of d c = None \<Longrightarrow> map_of (subs_of d c) s = None"
  by (simp add: subs_of_def)

lemma well_formed_insert_row:
  assumes "well_formed d"
  shows "well_formed (insert_row r d)"
proof -
  from assms have keys: "distinct (map fst d)"
    and subkeys: "\<And>c. distinct (map fst (subs_of d c))"
    and grades: "\<And>c s. distinct (grades_of d c s)"
    and subs_ne: "\<And>c. map_of d c \<noteq> None \<Longrightarrow> subs_of d c \<noteq> []"
    and grades_ne: "\<And>c s. map_of (subs_of d c) s \<noteq> None \<Longrightarrow> grades_of d c s \<noteq> []"
    by (simp_all add: well_formed_def)
  have 1: "distinct (map fst (insert_row r d))"
    using keys by (simp add: insert_row_def AList.distinct_update)
  have 2: "distinct (map fst (subs_of (insert_row r d) c))" for c
    using subkeys by (simp add: subs_of_insert_row AList.distinct_update)
  have 3: "distinct (grades_of (insert_row r d) c s)" for c s
    using grades by (simp add: grades_of_insert_row distinct_with_grade)
  have 4: "subs_of (insert_row r d) c \<noteq> []" if "map_of (insert_row r d) c \<noteq> None" for c
  proof (cases "c = r ! 5")
    case True
    then show ?thesis by (simp add: subs_of_insert_row)
  next
    case False
    from that map_of_insert_row [OF False, of d] have "map_of d c \<noteq> None" by metis
    then have "subs_of d c \<noteq> []" by (rule subs_ne)
    with False show ?thesis by (simp add: subs_of_insert_row)
  qed
  have 5: "grades_of (insert_row r d) c s \<noteq> []"
    if "map_of (subs_of (insert_row r d) c) s \<noteq> None" for c s
  proof (cases "c = r ! 5 \<and> s = r ! 6")
    case True
    then show ?thesis by (simp add: grades_of_insert_row with_grade_nonempty)
  next
    case False
    with that have "map_of (subs_of d c) s \<noteq> None"
      by (auto simp: subs_of_insert_row AList.update_conv' split: if_splits)
    then have "grades_of d c s \<noteq> []" by (rule grades_ne)
    with False show ?thesis by (auto simp: grades_of_insert_row)
  qed
  from 1 2 3 4 5 show ?thesis by (simp add: well_formed_def)
qed

lemma well_formed_empty: "well_formed []"
  by (simp add: well_formed_def subs_of_def grades_of_def)

lemma loop_step:
  assumes "readable r"
  shows "iter_rows_loop (r # rest) d =
           (if complete_row r then iter_rows_loop rest (insert_row r d) else iter_rows_loop rest d)"
proof (cases "r ! 0 = VNone")
  case True
  with assms show ?thesis by (simp add: readable_def cell_value_def complete_row_def)
next
  case False
  with assms have wide: "7 \<le> length r" by (simp add: readable_def)
  then have "0 < length r" "5 < length r" "6 < length r" by auto
  with False wide show ?thesis
    by (simp add: cell_value_def complete_row_def py_not_def add_entry_eq insert_row_def)
qed

lemma loop_unreadable:
  assumes "\<not> readable r"
  shows "iter_rows_loop (r # rest) d = Inl IndexError"
proof (cases "0 < length r")
  case False
  then show ?thesis by (simp add: cell_value_def)
next
  case True
  with assms have "r ! 0 \<noteq> VNone" "length r < 7" by (auto simp: readable_def)
  with True show ?thesis by (simp add: cell_value_def)
qed

lemma has_grade_iff: "has_grade d c s g \<longleftrightarrow> g \<in> set (grades_of d c s)"
  by (simp add: has_grade_def get_grades_def dict_get_def grades_of_def subs_of_def
           split: option.splits)

lemma loop_well_formed:
  "iter_rows_loop rows d = Inr d' \<Longrightarrow> well_formed d \<Longrightarrow> well_formed d'"
proof (induction rows arbitrary: d)
  case Nil
  then show ?case by simp
next
  case (Cons r rows)
  show ?case
  proof (cases "readable r")
    case False
    with Cons.prems show ?thesis by (simp del: iter_rows_loop.simps add: loop_unreadable)
  next
    case True
    show ?thesis
    proof (cases "complete_row r")
      case True
      with \<open>readable r\<close> Cons.prems(1) have "iter_rows_loop rows (insert_row r d) = Inr d'"
        by (simp del: iter_rows_loop.simps add: loop_step)
      moreover from Cons.prems(2) have "well_formed (insert_row r d)"
        by (rule well_formed_insert_row)
      ultimately show ?thesis by (rule Cons.IH)
    next
      case False
      with \<open>readable r\<close> Cons.prems(1) have "iter_rows_loop rows d = Inr d'"
        by (simp del: iter_rows_loop.simps add: loop_step)
      then show ?thesis using Cons.prems(2) by (rule Cons.IH)
    qed
  qed
qed

lemma loop_contents:
  "list_all readable rows \<Longrightarrow>
     \<exists>d'. iter_rows_loop rows d = Inr d' \<and>
       (\<forall>c s g. g \<in> set (grades_of d' c s) \<longleftrightarrow>
          (g \<in> set (grades_of d c s) \<or>
           (\<exists>r \<in> set rows. complete_row r \<and> c = r ! 5 \<and> s = r ! 6 \<and> g = r ! 0)))"
proof (induction rows arbitrary: d)
  case Nil
  then show ?case by simp
next
  case (Cons r rows)
  then have r: "readable r" and rest: "list_all readable rows" by simp_all
  show ?case
  proof (cases "complete_row r")
    case True
    from Cons.IH [OF rest, of "insert_row r d"] obtain d' where
      run: "iter_rows_loop rows (insert_row r d) = Inr d'" and
      sem: "\<And>c s g. g \<in> set (grades_of d' c s) \<longleftrightarrow>
          (g \<in> set (grades_of (insert_row r d) c s) \<or>
           (\<exists>r \<in> set rows. complete_row r \<and> c = r ! 5 \<and> s = r ! 6 \<and> g = r ! 0))"
      by blast
    from r True run have "iter_rows_loop (r # rows) d = Inr d'" by (simp del: iter_rows_loop.simps add: loop_step)
    moreover have "g \<in> set (grades_of d' c s) \<longleftrightarrow>
          (g \<in> set (grades_of d c s) \<or>
           (\<exists>r \<in> set (r # rows). complete_row r \<and> c = r ! 5 \<and> s = r ! 6 \<and> g = r ! 0))" for c s g
      using True by (auto simp: sem grades_of_insert_row set_with_grade)
    ultimately show ?thesis by blast
  next
    case False
    from Cons.IH [OF rest, of d] obtain d' where
      run: "iter_rows_loop rows d = Inr d'" and
      sem: "\<And>c s g. g \<in> set (grades_of d' c s) \<longleftrightarrow>
          (g \<in> set (grades_of d c s) \<or>
           (\<exists>r \<in> set rows. complete_row r \<and> c = r ! 5 \<and> s = r ! 6 \<and> g = r ! 0))"
      by blast
    from r False run have "iter_rows_loop (r # rows) d = Inr d'" by (simp del: iter_rows_loop.simps add: loop_step)
    moreover have "g \<in> set (grades_of d' c s) \<longleftrightarrow>
          (g \<in> set (grades_of d c s) \<or>
           (\<exists>r \<in> set (r # rows). complete_row r \<and> c = r ! 5 \<and> s = r ! 6 \<and> g = r ! 0))" for c s g
      using False by (auto simp: sem)
    ultimately show ?thesis by blast
  qed
qed

lemma get_grades_Inr: "get_grades d c s = Inr gs \<Longrightarrow> gs = grades_of d c s"
  by (auto simp: get_grades_def dict_get_def grades_of_def subs_of_def split: option.splits)

lemma get_subcategories_Inr:
  "get_subcategories d c = Inr subs \<Longrightarrow> subs = map fst (subs_of d c)"
  by (auto simp: get_subcategories_def dict_get_def dict_keys_def subs_of_def split: option.splits)

lemma well_formed_subs:
  assumes "well_formed d" and "map_of d c = Some subs"
  shows "subs \<noteq> []"
proof -
  from assms(1) have "map_of d c \<noteq> None \<longrightarrow> subs_of d c \<noteq> []"
    unfolding well_formed_def by blast
  with assms(2) show ?thesis by (simp add: subs_of_def)
qed

lemma well_formed_grades:
  assumes "well_formed d" and "map_of d c = Some subs" and "map_of subs s = Some gs"
  shows "gs \<noteq> []"
proof -
  from assms(1) have "map_of (subs_of d c) s \<noteq> None \<longrightarrow> grades_of d c s \<noteq> []"
    unfolding well_formed_def by blast
  with assms(2,3) show ?thesis by (simp add: subs_of_def grades_of_def)
qed

lemma grades_of_empty: "grades_of [] c s = []"
  by (simp add: grades_of_def subs_of_def)

text \<open>
  C7. When the workbook cannot be opened (the file is not there, or opening it raises
  any other \<^verbatim>\<open>Exception\<close>), the loader does not raise: it prints one line naming the
  failure and returns the empty taxonomy, which has no category.
\<close>

theorem load_failure_gives_empty_taxonomy:
  "load_workbook path = Inl e \<Longrightarrow> is_Exception e \<Longrightarrow>
     get_material_data load_workbook path =
       ([if e = FileNotFoundError then FileNotFoundMsg path else LoadFailedMsg e], Inr []) \<and>
     get_categories [] = []"
  by (simp add: get_material_data_def get_categories_def dict_keys_def)

theorem load_failure_gives_empty_taxonomy_witness:
  "is_Exception FileNotFoundError \<and>
   get_material_data (\<lambda>p. Inl FileNotFoundError) ''missing.xlsx'' =
     ([FileNotFoundMsg ''missing.xlsx''], Inr [])"
proof -
  have a: "(\<lambda>p::string. (Inl FileNotFoundError :: exn + row list)) ''missing.xlsx''
             = Inl FileNotFoundError" by simp
  have b: "is_Exception FileNotFoundError" by simp
  from load_failure_gives_empty_taxonomy [OF a b] b show ?thesis by simp
qed

text \<open>
  What the loader builds when every row can be read, that is, when every row after the
  header has a first cell and, unless that cell is empty, at least seven cells. It returns
  a taxonomy without raising, and a grade \<open>g\<close> is listed under subcategory \<open>s\<close> of
  category \<open>c\<close> exactly when some row after the header is complete and has \<open>g\<close> in
  column 0, \<open>c\<close> in column 5 and \<open>s\<close> in column 6. So the header row is not read, a
  row whose grade, category or subcategory cell is empty is skipped and the rows after it
  still count. No grade is listed twice under a subcategory, and no key occurs twice.
\<close>

theorem loader_contents:
  assumes "load_workbook path = Inr table"
      and "list_all readable (drop 1 table)"
  shows "\<exists>d. get_material_data load_workbook path = ([], Inr d) \<and>
           (\<forall>c s g. has_grade d c s g \<longleftrightarrow>
              (\<exists>r \<in> set (drop 1 table).
                  complete_row r \<and> c = r ! 5 \<and> s = r ! 6 \<and> g = r ! 0)) \<and>
           (\<forall>c s gs. get_grades d c s = Inr gs \<longrightarrow> distinct gs) \<and>
           distinct (get_categories d) \<and>
           (\<forall>c subs. get_subcategories d c = Inr subs \<longrightarrow> distinct subs)"
proof -
  from loop_contents [OF assms(2), of "[]"] obtain d where
    run: "iter_rows_loop (drop 1 table) [] = Inr d" and
    sem: "\<And>c s g. g \<in> set (grades_of d c s) \<longleftrightarrow>
            (\<exists>r \<in> set (drop 1 table). complete_row r \<and> c = r ! 5 \<and> s = r ! 6 \<and> g = r ! 0)"
    by (auto simp: grades_of_empty)
  from run have wf: "well_formed d" using well_formed_empty by (rule loop_well_formed)
  from assms(1) run have 1: "get_material_data load_workbook path = ([], Inr d)"
    by (simp add: get_material_data_def)
  have 2: "\<forall>c s g. has_grade d c s g \<longleftrightarrow>
              (\<exists>r \<in> set (drop 1 table).
                  complete_row r \<and> c = r ! 5 \<and> s = r ! 6 \<and> g = r ! 0)"
    by (simp add: has_grade_iff sem)
  have 3: "\<forall>c s gs. get_grades d c s = Inr gs \<longrightarrow> distinct gs"
    using wf by (auto simp: well_formed_def dest!: get_grades_Inr)
  have 4: "distinct (get_categories d)"
    using wf by (simp add: well_formed_def get_categories_def dict_keys_def)
  have 5: "\<forall>c subs. get_subcategories d c = Inr subs \<longrightarrow> distinct subs"
    using wf by (auto simp: well_formed_def dest!: get_subcategories_Inr)
  from 1 2 3 4 5 show ?thesis by blast
qed

text \<open>
  C9. In whatever taxonomy the loader returns, a category that is present has at least one
  subcategory and each of its subcategories has at least one grade: the three queries
  succeed and answer non-empty sequences for the keys that are present.
\<close>

theorem loaded_taxonomy_has_no_empty_branch:
  assumes "get_material_data load_workbook path = (printed, Inr d)"
      and "c \<in> set (get_categories d)"
  shows "get_categories d \<noteq> [] \<and>
         (\<exists>subs. get_subcategories d c = Inr subs \<and> subs \<noteq> [] \<and>
            (\<forall>s \<in> set subs. \<exists>gs. get_grades d c s = Inr gs \<and> gs \<noteq> []))"
proof -
  have wf: "well_formed d"
  proof (cases "load_workbook path")
    case (Inl e)
    with assms(1) have "d = []" by (auto simp: get_material_data_def split: if_splits)
    then show ?thesis by (simp add: well_formed_empty)
  next
    case (Inr table)
    with assms(1) have "iter_rows_loop (drop 1 table) [] = Inr d"
      by (simp add: get_material_data_def)
    then show ?thesis using well_formed_empty by (rule loop_well_formed)
  qed
  from assms(2) obtain subs where subs: "map_of d c = Some subs"
    by (auto simp: get_categories_def in_keys)
  from wf subs have ne: "subs \<noteq> []" by (rule well_formed_subs)
  have "\<exists>gs. get_grades d c s = Inr gs \<and> gs \<noteq> []" if "s \<in> set (dict_keys subs)" for s
  proof -
    from that obtain gs where gs: "map_of subs s = Some gs" by (auto simp: in_keys)
    from wf subs gs have "gs \<noteq> []" by (rule well_formed_grades)
    with subs gs show ?thesis by (simp add: get_grades_def dict_get_def)
  qed
  moreover from subs have "get_subcategories d c = Inr (dict_keys subs)"
    by (simp add: get_subcategories_def dict_get_def)
  moreover from ne have "dict_keys subs \<noteq> []" by (simp add: dict_keys_def)
  moreover from assms(2) have "get_categories d \<noteq> []" by auto
  ultimately show ?thesis by blast
qed

lemma sample_run:
  "get_material_data (\<lambda>p. Inr sample_table) ''materials.xlsx'' = ([], Inr sample_taxonomy)"
  by (simp add: get_material_data_def sample_table_def sample_taxonomy_def cell_value_def
        py_not_def add_entry_def dict_get_def dict_keys_def)

lemma sample_readable: "list_all readable (drop 1 sample_table)"
  by (simp add: sample_table_def readable_def)

theorem loader_contents_witness:
  "list_all readable (drop 1 sample_table) \<and>
   get_material_data (\<lambda>p. Inr sample_table) ''materials.xlsx'' = ([], Inr sample_taxonomy) \<and>
   get_grades sample_taxonomy (VStr ''Metal'') (VStr ''Ferrous'') = Inr [VStr ''Steel-A36'']"
proof -
  have a: "(\<lambda>p::string. (Inr sample_table :: exn + row list)) ''materials.xlsx'' = Inr sample_table"
    by simp
  have g: "get_grades sample_taxonomy (VStr ''Metal'') (VStr ''Ferrous'') = Inr [VStr ''Steel-A36'']"
    by (simp add: get_grades_def dict_get_def sample_taxonomy_def)
  from loader_contents [OF a sample_readable] sample_run sample_readable g
  show ?thesis by blast
qed

text \<open>
  C8. On a sheet with fewer than seven columns a row has a grade and no category cell at
  all. The loader does not skip it: reading column 5 raises \<^verbatim>\<open>IndexError\<close> and the
  scan ends there, although line 40 is meant to skip rows with missing values.
\<close>

theorem narrow_table_raises:
  "snd (get_material_data (\<lambda>p. Inr narrow_table) ''materials.xlsx'') = Inl IndexError"
  by (simp add: get_material_data_def narrow_table_def cell_value_def)

text \<open>
  The same happens at a blank row that the sheet yields as an empty tuple, whatever rows
  follow it: reading its first cell raises, although line 33 is meant to skip it.
\<close>

lemma blank_row_raises: "iter_rows_loop ([] # rest) d = Inl IndexError"
  by (simp add: cell_value_def)

theorem loaded_taxonomy_has_no_empty_branch_witness:
  "VStr ''Metal'' \<in> set (get_categories sample_taxonomy) \<and>
   get_subcategories sample_taxonomy (VStr ''Metal'') = Inr [VStr ''Ferrous'', VStr ''Aluminium''] \<and>
   get_grades sample_taxonomy (VStr ''Metal'') (VStr ''Ferrous'') = Inr [VStr ''Steel-A36''] \<and>
   get_grades sample_taxonomy (VStr ''Metal'') (VStr ''Aluminium'') = Inr [VStr ''6061'']"
proof -
  have c: "VStr ''Metal'' \<in> set (get_categories sample_taxonomy)"
    by (simp add: get_categories_def dict_keys_def sample_taxonomy_def)
  have rest:
    "get_subcategories sample_taxonomy (VStr ''Metal'') = Inr [VStr ''Ferrous'', VStr ''Aluminium'']"
    "get_grades sample_taxonomy (VStr ''Metal'') (VStr ''Ferrous'') = Inr [VStr ''Steel-A36'']"
    "get_grades sample_taxonomy (VStr ''Metal'') (VStr ''Aluminium'') = Inr [VStr ''6061'']"
    by (simp_all add: get_subcategories_def get_grades_def dict_get_def dict_keys_def
          sample_taxonomy_def)
  from loaded_taxonomy_has_no_empty_branch [OF sample_run c] c rest show ?thesis by blast
qed

end
